theory Spec2Isabelle
  imports Main
begin

section \<open>Python strings\<close>

text \<open>
  Text is a list of 8-bit characters. The string methods the backend calls are modelled
  as Python defines them on ASCII text: a character above 127 is an opaque symbol, it is
  neither white space nor a letter nor a digit and the case mappings leave it alone.
  Logging has no effect on any result and is left out everywhere.
\<close>

definition isspace :: "char \<Rightarrow> bool" where
  "isspace c = (c \<in> set [CHR 0x09, CHR 0x0A, CHR 0x0B, CHR 0x0C, CHR 0x0D,
                           CHR 0x1C, CHR 0x1D, CHR 0x1E, CHR 0x1F, CHR 0x20])"

definition isdigit :: "char \<Rightarrow> bool" where
  "isdigit c = (c \<in> set ''0123456789'')"

definition ascii_uppercase :: string where
  "ascii_uppercase = ''ABCDEFGHIJKLMNOPQRSTUVWXYZ''"

definition ascii_lowercase :: string where
  "ascii_lowercase = ''abcdefghijklmnopqrstuvwxyz''"

definition isalpha_char :: "char \<Rightarrow> bool" where
  "isalpha_char c = (c \<in> set ascii_uppercase \<or> c \<in> set ascii_lowercase)"

definition lower_char :: "char \<Rightarrow> char" where
  "lower_char c = (case map_of (zip ascii_uppercase ascii_lowercase) c of Some d \<Rightarrow> d | None \<Rightarrow> c)"

definition upper_char :: "char \<Rightarrow> char" where
  "upper_char c = (case map_of (zip ascii_lowercase ascii_uppercase) c of Some d \<Rightarrow> d | None \<Rightarrow> c)"

definition lower :: "string \<Rightarrow> string" where
  "lower s = map lower_char s"

definition upper :: "string \<Rightarrow> string" where
  "upper s = map upper_char s"

text \<open>\<^verbatim>\<open>s.isalpha()\<close>: at least one character, all of them letters.\<close>

definition isalpha :: "string \<Rightarrow> bool" where
  "isalpha s = (s \<noteq> [] \<and> list_all isalpha_char s)"

text \<open>\<^verbatim>\<open>s.strip()\<close> removes leading and trailing white space.\<close>

definition strip :: "string \<Rightarrow> string" where
  "strip s = rev (dropWhile isspace (rev (dropWhile isspace s)))"

text \<open>\<^verbatim>\<open>s.split(c)\<close> for a one-character separator: never an empty list.\<close>

fun split_on :: "char \<Rightarrow> string \<Rightarrow> string list" where
  "split_on c [] = [[]]"
| "split_on c (x # xs) =
     (if x = c then [] # split_on c xs
      else (case split_on c xs of [] \<Rightarrow> [[x]] | w # ws \<Rightarrow> (x # w) # ws))"

text \<open>\<^verbatim>\<open>s.split()\<close>: the maximal runs of characters that are not white space.\<close>

fun split_ws :: "string \<Rightarrow> string list" where
  "split_ws [] = []"
| "split_ws (c # cs) =
     (if isspace c then split_ws cs
      else (case cs of
              [] \<Rightarrow> [[c]]
            | d # _ \<Rightarrow>
                if isspace d then [c] # split_ws cs
                else (case split_ws cs of [] \<Rightarrow> [[c]] | w # ws \<Rightarrow> (c # w) # ws)))"

text \<open>\<^verbatim>\<open>sep.join(xs)\<close>.\<close>

fun join :: "string \<Rightarrow> string list \<Rightarrow> string" where
  "join sep [] = []"
| "join sep [x] = x"
| "join sep (x # y # ys) = x @ sep @ join sep (y # ys)"

fun startswith :: "string \<Rightarrow> string \<Rightarrow> bool" where
  "startswith s [] = True"
| "startswith [] (p # ps) = False"
| "startswith (c # cs) (p # ps) = (c = p \<and> startswith cs ps)"

definition endswith :: "string \<Rightarrow> string \<Rightarrow> bool" where
  "endswith s p = startswith (rev s) (rev p)"

text \<open>\<^verbatim>\<open>sub in s\<close>: \<open>sub\<close> occurs in \<open>s\<close> as a contiguous run.\<close>

fun contains :: "string \<Rightarrow> string \<Rightarrow> bool" where
  "contains [] sub = (sub = [])"
| "contains (c # cs) sub = (startswith (c # cs) sub \<or> contains cs sub)"

text \<open>\<^verbatim>\<open>range(start, stop, step)\<close> for a positive step, as a list.\<close>

definition py_range :: "nat \<Rightarrow> nat \<Rightarrow> nat \<Rightarrow> nat list" where
  "py_range start stop step = filter (\<lambda>i. (i - start) mod step = 0) [start..<stop]"

text \<open>\<^verbatim>\<open>str(n)\<close> for an integer.\<close>

fun str_nat :: "nat \<Rightarrow> string" where
  "str_nat n = (if n < 10 then [''0123456789'' ! n] else str_nat (n div 10) @ [''0123456789'' ! (n mod 10)])"

definition str_int :: "int \<Rightarrow> string" where
  "str_int i = (if i < 0 then CHR ''-'' # str_nat (nat (- i)) else str_nat (nat i))"

text \<open>An exception is a value: the \<^verbatim>\<open>ValueError\<close>s the backend raises itself, and whatever
  a library call raises. \<open>str_exn\<close> is \<^verbatim>\<open>str(e)\<close>.\<close>

datatype exn = ValueError string | LibraryError string

fun str_exn :: "exn \<Rightarrow> string" where
  "str_exn (ValueError m) = m"
| "str_exn (LibraryError m) = m"

section \<open>Regular expressions\<close>

text \<open>
  The patterns of the backend are sequences of three kinds of item: a literal run of
  characters, a greedy \<^verbatim>\<open>c*\<close> and a greedy \<^verbatim>\<open>c+\<close> over a character class. \<open>rx_match\<close> is
  \<^verbatim>\<open>re.match\<close> for a pattern that starts with \<^verbatim>\<open>^\<close> and ends with \<^verbatim>\<open>$\<close>: it returns what each
  item matched, trying the longest repetition first and backing off as Python's
  backtracking matcher does. The flag is \<^verbatim>\<open>re.IGNORECASE\<close>. The subjects are lines cut at
  line feeds, so \<^verbatim>\<open>$\<close> can only match at the end of the subject.
\<close>

datatype rx = Lit string | Star "char \<Rightarrow> bool" | Plus "char \<Rightarrow> bool"

text \<open>A literal run at the head of the subject: what is left of the subject after it.\<close>

fun rx_literal :: "bool \<Rightarrow> string \<Rightarrow> string \<Rightarrow> string option" where
  "rx_literal ic [] s = Some s"
| "rx_literal ic (l # ls) [] = None"
| "rx_literal ic (l # ls) (c # cs) =
     (if (if ic then lower_char c = lower_char l else c = l) then rx_literal ic ls cs else None)"

fun rx_match :: "bool \<Rightarrow> rx list \<Rightarrow> string \<Rightarrow> string list option" where
  "rx_match ic [] s = (if s = [] then Some [] else None)"
| "rx_match ic (Lit l # r) s =
     (case rx_literal ic l s of
        Some rest \<Rightarrow> map_option (Cons (take (length l) s)) (rx_match ic r rest)
      | None \<Rightarrow> None)"
| "rx_match ic (Star p # r) [] = map_option (Cons []) (rx_match ic r [])"
| "rx_match ic (Star p # r) (c # cs) =
     (if p c
      then (case rx_match ic (Star p # r) cs of
              Some (g # gs) \<Rightarrow> Some ((c # g) # gs)
            | _ \<Rightarrow> map_option (Cons []) (rx_match ic r (c # cs)))
      else map_option (Cons []) (rx_match ic r (c # cs)))"
| "rx_match ic (Plus p # r) [] = None"
| "rx_match ic (Plus p # r) (c # cs) =
     (if p c
      then (case rx_match ic (Star p # r) cs of
              Some (g # gs) \<Rightarrow> Some ((c # g) # gs)
            | _ \<Rightarrow> None)
      else None)"

section \<open>Dictionaries\<close>

text \<open>
  A Python \<^verbatim>\<open>dict\<close> keeps its keys in insertion order, and assigning to a key that is
  present replaces the value where it stands: an association list with one entry per key.
\<close>

fun dict_set :: "('k \<times> 'v) list \<Rightarrow> 'k \<Rightarrow> 'v \<Rightarrow> ('k \<times> 'v) list" where
  "dict_set [] k v = [(k, v)]"
| "dict_set ((k', v') # d) k v = (if k' = k then (k, v) # d else (k', v') # dict_set d k v)"

section \<open>processor.py: the section segmenter\<close>

definition SECTION_HEADERS :: "string list" where
  "SECTION_HEADERS =
     [''Abstract'', ''Introduction'', ''Background'', ''Methodology'', ''Methods'',
      ''Results'', ''Discussion'', ''Conclusion'', ''References'', ''Literature Review'',
      ''Related Work'', ''Experiments'', ''Analysis'', ''Findings'', ''Summary'',
      ''Overview'', ''Executive Summary'', ''Objectives'', ''Scope'', ''Definitions'']"

text \<open>The six patterns \<^verbatim>\<open>split_into_sections\<close> builds for a header, in its order.\<close>

definition header_patterns :: "string \<Rightarrow> rx list list" where
  "header_patterns header =
     [[Lit header],
      [Lit header, Star isspace],
      [Plus isdigit, Lit ''.'', Star isspace, Lit header],
      [Plus isdigit, Lit ''.'', Plus isdigit, Star isspace, Lit header],
      [Lit (upper header)],
      [Lit (lower header)]]"

text \<open>The first header of the list one of whose patterns matches the trimmed line.\<close>

definition matching_header :: "string \<Rightarrow> string option" where
  "matching_header line_clean =
     List.find (\<lambda>header. list_ex (\<lambda>pattern. rx_match True pattern line_clean \<noteq> None)
                            (header_patterns header))
               SECTION_HEADERS"

record segmenter =
  sections :: "(string \<times> string) list"
  current_section :: string
  buffer :: "string list"

text \<open>One turn of the loop over the lines.\<close>

definition segment_line :: "segmenter \<Rightarrow> string \<Rightarrow> segmenter" where
  "segment_line st line =
     (let line_clean = strip line in
      if line_clean = [] then st
      else (case matching_header line_clean of
              Some header \<Rightarrow>
                \<lparr>sections =
                   (if buffer st \<noteq> []
                    then dict_set (sections st) (current_section st)
                           (strip (join ''\<newline>'' (buffer st)))
                    else sections st),
                 current_section = header,
                 buffer = []\<rparr>
            | None \<Rightarrow> st\<lparr>buffer := buffer st @ [line]\<rparr>))"

definition split_into_sections :: "string \<Rightarrow> (string \<times> string) list" where
  "split_into_sections text' =
     (let st = foldl segment_line
                 \<lparr>sections = [], current_section = ''Main Content'', buffer = []\<rparr>
                 (split_on CHR ''\<newline>'' text');
          all_sections =
            (if buffer st \<noteq> []
             then dict_set (sections st) (current_section st)
                    (strip (join ''\<newline>'' (buffer st)))
             else sections st)
      in filter (\<lambda>(k, v). strip v \<noteq> []) all_sections)"

section \<open>processor.py: the chunker\<close>

text \<open>
  \<^verbatim>\<open>chunk_section(section_text)\<close>. The splitter is langchain's
  \<^verbatim>\<open>RecursiveCharacterTextSplitter(chunk_size=600, chunk_overlap=100, ...).split_text\<close>, a
  library function outside the repository: it is the parameter \<open>splitter\<close>, and \<open>Inl\<close> is
  the case that constructing or running it raises. The \<^verbatim>\<open>except\<close> branch slices the text
  at every multiple of 400 into windows of 500 characters.
\<close>

definition chunk_section :: "(string \<Rightarrow> exn + string list) \<Rightarrow> string \<Rightarrow> string list" where
  "chunk_section splitter section_text =
     (if strip section_text = [] then []
      else (case splitter section_text of
              Inr chunks \<Rightarrow> filter (\<lambda>chunk. 30 < length (strip chunk)) chunks
            | Inl e \<Rightarrow>
                map (\<lambda>i. take 500 (drop i section_text)) (py_range 0 (length section_text) 400)))"

section \<open>Documents, chunks and the outside world\<close>

text \<open>
  A chunk is a dictionary with the keys \<^verbatim>\<open>section\<close>, \<^verbatim>\<open>paragraph\<close>, \<^verbatim>\<open>text\<close> and, once it
  has been through \<^verbatim>\<open>document_to_dict\<close>, \<^verbatim>\<open>chunk_id\<close>. The code reads them with
  \<^verbatim>\<open>.get(key, default)\<close>, so each key may be absent. A langchain \<^verbatim>\<open>Document\<close> has its
  \<^verbatim>\<open>page_content\<close> and a metadata dictionary.
\<close>

record chunk =
  ck_section :: "string option"
  ck_paragraph :: "int option"
  ck_text :: "string option"
  ck_chunk_id :: "int option"

record meta =
  md_section :: "string option"
  md_paragraph :: "int option"
  md_chunk_id :: "int option"

record document =
  page_content :: string
  metadata :: meta

datatype chunk_obj = DocumentObj document | DictObj chunk

text \<open>\<^verbatim>\<open>chunk.get('section', default)\<close> and \<^verbatim>\<open>chunk.get('text', '')\<close>.\<close>

definition get_section :: "string \<Rightarrow> chunk \<Rightarrow> string" where
  "get_section dflt c = (case ck_section c of Some sec \<Rightarrow> sec | None \<Rightarrow> dflt)"

definition get_text :: "chunk \<Rightarrow> string" where
  "get_text c = (case ck_text c of Some t \<Rightarrow> t | None \<Rightarrow> [])"

text \<open>The text of a retrieved chunk, which is a \<^verbatim>\<open>Document\<close> or a dictionary.\<close>

definition chunk_obj_text :: "chunk_obj \<Rightarrow> string" where
  "chunk_obj_text chunk' =
     (case chunk' of DocumentObj doc \<Rightarrow> page_content doc | DictObj c \<Rightarrow> get_text c)"

datatype file_content = Bytes string | Str string

record upload =
  filename :: string
  content :: file_content

text \<open>
  What lies outside the repository is a parameter of the model: the text splitter, the
  PDF reader (\<^verbatim>\<open>fitz.open\<close>: it raises, or gives for each page the text \<^verbatim>\<open>get_text\<close> returns
  or the exception it raises), the UTF-8 codec, the environment variable \<^verbatim>\<open>HF_TOKEN\<close>, the
  constructor of \<^verbatim>\<open>HuggingFaceEndpoint\<close> (the exception it raises, if any), the generative
  model (its reply to the \<open>n\<close>-th invocation of the process, or the exception raised), the
  FAISS index (building and saving it from documents, loading it, searching it) and the
  order in which Python iterates over a set of strings, which the language leaves open.
\<close>

record world =
  split_text :: "string \<Rightarrow> exn + string list"
  fitz_open :: "file_content \<Rightarrow> exn + (exn + string) list"
  utf8_decode :: "string \<Rightarrow> string option"
  hf_token :: bool
  endpoint_error :: "exn option"
  llm_invoke :: "nat \<Rightarrow> string \<Rightarrow> exn + string"
  faiss_build_error :: "document list \<Rightarrow> exn option"
  faiss_load_error :: "exn option"
  similarity_search :: "document list \<Rightarrow> string \<Rightarrow> nat \<Rightarrow> exn + document list"
  set_order :: "string list \<Rightarrow> string list"

text \<open>
  The state the backend changes: the index saved at \<^verbatim>\<open>VECTOR_DB_PATH\<close> (\<open>None\<close> while the
  path does not exist) and the calls made so far to the generative model and to
  \<^verbatim>\<open>time.sleep\<close>.
\<close>

datatype event = Invoke string | Sleep nat

record state =
  vector_db :: "document list option"
  events :: "event list"

fun is_invoke :: "event \<Rightarrow> bool" where
  "is_invoke (Invoke p) = True"
| "is_invoke (Sleep n) = False"

text \<open>\<^verbatim>\<open>llm.invoke(prompt)\<close> and \<^verbatim>\<open>time.sleep(seconds)\<close>.\<close>

definition invoke :: "world \<Rightarrow> string \<Rightarrow> state \<Rightarrow> (exn + string) \<times> state" where
  "invoke w prompt st =
     (llm_invoke w (length (filter is_invoke (events st))) prompt,
      st\<lparr>events := events st @ [Invoke prompt]\<rparr>)"

definition sleep :: "nat \<Rightarrow> state \<Rightarrow> state" where
  "sleep seconds st = st\<lparr>events := events st @ [Sleep seconds]\<rparr>"

definition max_retries :: nat where
  "max_retries = 3"

section \<open>processor.py: text extraction\<close>

definition extract_text_from_pdf :: "world \<Rightarrow> upload \<Rightarrow> exn + string" where
  "extract_text_from_pdf w file =
     (let body =
        (if content file = Bytes [] \<or> content file = Str []
         then Inl (ValueError ''PDF file is empty'')
         else (case fitz_open w (content file) of
                 Inl e \<Rightarrow> Inl e
               | Inr pages \<Rightarrow>
                   if pages = [] then Inl (ValueError ''PDF has no pages'')
                   else (let text_parts =
                               concat (map (\<lambda>page. case page of
                                                      Inr page_text \<Rightarrow>
                                                        if strip page_text \<noteq> [] then [page_text] else []
                                                    | Inl e \<Rightarrow> [])
                                           pages)
                         in if text_parts = []
                            then Inl (ValueError ''No extractable text found in PDF'')
                            else Inr (join ''\<newline>'' text_parts))))
      in case body of
           Inr full_text \<Rightarrow> Inr full_text
         | Inl e \<Rightarrow> Inl (ValueError (''PDF parsing error: '' @ str_exn e)))"

text \<open>Decoding bytes as latin-1 gives each byte the character of the same code.\<close>

definition extract_text_from_txt :: "world \<Rightarrow> upload \<Rightarrow> exn + string" where
  "extract_text_from_txt w file =
     (let text' =
        (case content file of
           Bytes b \<Rightarrow> (case utf8_decode w b of Some t \<Rightarrow> t | None \<Rightarrow> b)
         | Str t \<Rightarrow> t)
      in if strip text' = []
         then Inl (ValueError (''TXT parsing error: ''
                                @ ''TXT file is empty or contains no readable text''))
         else Inr text')"

definition extract_text :: "world \<Rightarrow> upload \<Rightarrow> exn + string" where
  "extract_text w file =
     (let filename' = lower (filename file) in
      if endswith filename' ''.pdf'' then extract_text_from_pdf w file
      else if endswith filename' ''.txt'' then extract_text_from_txt w file
      else Inl (ValueError ''Unsupported file format. Only PDF and TXT files are supported.''))"

section \<open>processor.py: the summary\<close>

definition get_llm_processor :: "world \<Rightarrow> exn + unit" where
  "get_llm_processor w =
     (if \<not> hf_token w then Inl (ValueError ''HF_TOKEN environment variable is required'')
      else (case endpoint_error w of Some e \<Rightarrow> Inl e | None \<Rightarrow> Inr ()))"

definition generate_fallback_summary :: "(string \<times> string) list \<Rightarrow> string" where
  "generate_fallback_summary sections' =
     (let summary_parts =
            concat (map (\<lambda>(section_name, section_text).
                           let sentences = take 2 (split_on CHR ''.'' section_text);
                               clean_text = strip (join ''. '' sentences)
                           in if sentences \<noteq> [] \<and> clean_text \<noteq> [] \<and> 20 < length clean_text
                              then [section_name @ '': '' @ clean_text] else [])
                        (take 3 sections'))
      in if summary_parts \<noteq> []
         then ''Document Summary:\<newline>'' @ join ''\<newline>'' summary_parts
         else ''Document contains '' @ str_nat (length sections')
                @ '' sections with processed content ready for analysis.'')"

text \<open>The retry loop of \<^verbatim>\<open>generate_summary\<close> over the attempts still to make: \<open>Some\<close> is the
  summary it returns from inside the loop, \<open>None\<close> is falling out of the loop.\<close>

fun summary_attempts :: "world \<Rightarrow> string \<Rightarrow> nat list \<Rightarrow> state \<Rightarrow> string option \<times> state" where
  "summary_attempts w prompt [] st = (None, st)"
| "summary_attempts w prompt (attempt # rest) st =
     (case invoke w prompt st of
        (Inr response, st') \<Rightarrow>
          if strip response \<noteq> []
          then (let words = split_ws (strip response) in
                (Some (if 150 < length words then join '' '' (take 150 words) @ ''...''
                       else strip response), st'))
          else summary_attempts w prompt rest st'
      | (Inl e, st') \<Rightarrow>
          summary_attempts w prompt rest
            (if attempt < max_retries - 1 then sleep (2 ^ attempt) st' else st'))"

definition summary_prompt :: "string \<Rightarrow> string" where
  "summary_prompt combined =
     ''Create a concise summary of this document in exactly 150 words or less. ''
     @ ''Focus on the main purpose, key findings, and conclusions:\<newline>''
     @ ''\<newline>''
     @ combined
     @ ''\<newline>''
     @ ''\<newline>''
     @ ''Summary (150 words max):''"

definition generate_summary :: "world \<Rightarrow> (string \<times> string) list \<Rightarrow> state \<Rightarrow> string \<times> state" where
  "generate_summary w sections' st =
     (case get_llm_processor w of
        Inl e \<Rightarrow> (generate_fallback_summary sections', st)
      | Inr llm \<Rightarrow>
          (let combined =
                 take 1800
                   (concat (map (\<lambda>(section_name, section_text).
                                   ''\<newline>'' @ section_name @ '': '' @ take 400 section_text @ ''\<newline>'')
                                (take 4 sections')));
               prompt = summary_prompt combined
           in case summary_attempts w prompt [0..<max_retries] st of
                (Some summary, st') \<Rightarrow> (summary, st')
              | (None, st') \<Rightarrow> (generate_fallback_summary sections', st')))"

section \<open>processor.py: process\_document\<close>

record stats =
  total_chunks :: nat
  total_sections :: nat
  total_text_length :: nat

record processed =
  r_sections :: "string list"
  r_chunks :: "chunk list"
  r_summary :: string
  r_stats :: stats

text \<open>
  One turn of the loop over the segmented sections: the section's chunk list goes into
  the dictionary \<^verbatim>\<open>sections\<close> and every chunk is appended to \<^verbatim>\<open>chunks\<close> with its 1-based
  position in its section. \<open>chunk_section\<close> catches what the splitter raises and returns on
  every text, so the \<^verbatim>\<open>except\<close> branch of this loop is never taken.
\<close>

definition chunk_step ::
  "world \<Rightarrow> (string \<times> string list) list \<times> chunk list \<Rightarrow> string \<times> string
     \<Rightarrow> (string \<times> string list) list \<times> chunk list" where
  "chunk_step w acc sec =
     (case (acc, sec) of
        ((sections', chunks), (sec_name, sec_text)) \<Rightarrow>
          (let chunked = chunk_section (split_text w) sec_text in
           (dict_set sections' sec_name chunked,
            chunks @ map (\<lambda>(idx, chunk_text).
                            \<lparr>ck_section = Some sec_name,
                             ck_paragraph = Some (int idx + 1),
                             ck_text = Some chunk_text,
                             ck_chunk_id = None\<rparr>)
                         (enumerate 0 chunked))))"

definition process_document :: "world \<Rightarrow> upload \<Rightarrow> state \<Rightarrow> (exn + processed) \<times> state" where
  "process_document w file st =
     (case extract_text w file of
        Inl e \<Rightarrow> (Inl e, st)
      | Inr text' \<Rightarrow>
          (let sections_raw = split_into_sections text' in
           if sections_raw = [] then (Inl (ValueError ''No sections found in document''), st)
           else (case foldl (chunk_step w) ([], []) sections_raw of
                   (sections', chunks) \<Rightarrow>
                     if chunks = []
                     then (Inl (ValueError ''No chunks generated from document''), st)
                     else (case generate_summary w sections_raw st of
                             (summary, st') \<Rightarrow>
                               (Inr \<lparr>r_sections = map fst sections',
                                     r_chunks = chunks,
                                     r_summary = summary,
                                     r_stats = \<lparr>total_chunks = length chunks,
                                                total_sections = length sections',
                                                total_text_length = length text'\<rparr>\<rparr>,
                                st')))))"

section \<open>Python sets of words\<close>

text \<open>
  \<^verbatim>\<open>set(xs)\<close> is the list without its repetitions, \<^verbatim>\<open>a.intersection(b)\<close> keeps the
  elements of \<open>a\<close> that are in \<open>b\<close>, and \<^verbatim>\<open>len\<close> counts them.
\<close>

definition py_set :: "'a list \<Rightarrow> 'a list" where
  "py_set xs = remdups xs"

definition intersection :: "'a list \<Rightarrow> 'a list \<Rightarrow> 'a list" where
  "intersection a b = filter (\<lambda>x. x \<in> set b) a"

text \<open>\<^verbatim>\<open>xs[:n]\<close> for an integer \<open>n\<close>: a negative \<open>n\<close> counts from the end.\<close>

definition py_take :: "int \<Rightarrow> 'a list \<Rightarrow> 'a list" where
  "py_take n xs = (if 0 \<le> n then take (nat n) xs else take (length xs - nat (- n)) xs)"

section \<open>qa\_engine.py\<close>

text \<open>
  \<^verbatim>\<open>get_llm\<close> of \<^verbatim>\<open>qa_engine.py\<close> tries the model once with the prompt \<^verbatim>\<open>Test\<close>; whatever goes
  wrong after the token check ends in the same \<^verbatim>\<open>ValueError\<close>.
\<close>

definition get_llm_qa :: "world \<Rightarrow> state \<Rightarrow> (exn + unit) \<times> state" where
  "get_llm_qa w st =
     (if \<not> hf_token w then (Inl (ValueError ''HF_TOKEN environment variable is required''), st)
      else (case endpoint_error w of
              Some e \<Rightarrow> (Inl (ValueError ''Failed to initialize any LLM model''), st)
            | None \<Rightarrow>
                (case invoke w ''Test'' st of
                   (Inr test_response, st') \<Rightarrow>
                     if strip test_response \<noteq> [] then (Inr (), st')
                     else (Inl (ValueError ''Failed to initialize any LLM model''), st')
                 | (Inl e, st') \<Rightarrow>
                     (Inl (ValueError ''Failed to initialize any LLM model''), st'))))"

text \<open>The test \<^verbatim>\<open>c.get("text") and c["text"].strip()\<close> of \<^verbatim>\<open>build_vector_store\<close>.\<close>

definition has_text :: "chunk \<Rightarrow> bool" where
  "has_text c = (case ck_text c of Some t \<Rightarrow> t \<noteq> [] \<and> strip t \<noteq> [] | None \<Rightarrow> False)"

text \<open>One turn of the loop of \<^verbatim>\<open>build_vector_store\<close> over the chunks.\<close>

definition store_step :: "string list \<times> meta list \<Rightarrow> chunk \<Rightarrow> string list \<times> meta list" where
  "store_step acc c =
     (case acc of
        (texts, metadatas) \<Rightarrow>
          if has_text c
          then (let texts' = texts @ [get_text c] in
                (texts',
                 metadatas @
                   [\<lparr>md_section = Some (get_section ''Unknown'' c),
                     md_paragraph = Some (case ck_paragraph c of Some p \<Rightarrow> p | None \<Rightarrow> 0),
                     md_chunk_id = Some (int (length texts'))\<rparr>]))
          else (texts, metadatas))"

text \<open>\<^verbatim>\<open>build_vector_store(chunks)\<close>: the documents handed to FAISS, which are saved at
  \<^verbatim>\<open>VECTOR_DB_PATH\<close> unless embedding or saving raises.\<close>

definition build_vector_store :: "world \<Rightarrow> chunk list \<Rightarrow> state \<Rightarrow> (exn + document list) \<times> state" where
  "build_vector_store w chunks st =
     (case foldl store_step ([], []) chunks of
        (texts, metadatas) \<Rightarrow>
          if texts = [] then (Inl (ValueError ''No valid text chunks provided''), st)
          else (let docs = map (\<lambda>i. \<lparr>page_content = texts ! i, metadata = metadatas ! i\<rparr>)
                               [0..<length texts]
                in case faiss_build_error w docs of
                     Some e \<Rightarrow> (Inl e, st)
                   | None \<Rightarrow> (Inr docs, st\<lparr>vector_db := Some docs\<rparr>)))"

definition load_vector_store :: "world \<Rightarrow> state \<Rightarrow> exn + document list" where
  "load_vector_store w st =
     (case vector_db st of
        None \<Rightarrow> Inl (ValueError ''Vector store not found. Please process a document first.'')
      | Some docs \<Rightarrow> (case faiss_load_error w of Some e \<Rightarrow> Inl e | None \<Rightarrow> Inr docs))"

definition retrieve_relevant_chunks :: "world \<Rightarrow> string \<Rightarrow> nat \<Rightarrow> state \<Rightarrow> document list" where
  "retrieve_relevant_chunks w query k st =
     (case load_vector_store w st of
        Inl e \<Rightarrow> []
      | Inr vector_store \<Rightarrow>
          (case similarity_search w vector_store query k of
             Inl e \<Rightarrow> []
           | Inr results \<Rightarrow> results))"

definition is_response_grounded :: "string \<Rightarrow> string \<Rightarrow> bool" where
  "is_response_grounded response context =
     (if contains (upper response) ''SOURCE'' \<or> contains (upper response) ''SECTION'' then True
      else (let context_words = py_set (split_ws (lower context));
                response_words = py_set (split_ws (lower response));
                overlap = length (intersection context_words response_words)
            in 3 < overlap))"

record answer_result =
  answer :: string
  sources :: "document list"
  confidence :: string

definition no_information :: answer_result where
  "no_information =
     \<lparr>answer = ''No relevant information found in the document to answer your question.'',
      sources = [],
      confidence = ''low''\<rparr>"

text \<open>The metadata of a source as the f-strings print it.\<close>

definition section_or :: "string \<Rightarrow> document \<Rightarrow> string" where
  "section_or dflt doc = (case md_section (metadata doc) of Some sec \<Rightarrow> sec | None \<Rightarrow> dflt)"

definition paragraph_str :: "document \<Rightarrow> string" where
  "paragraph_str doc = (case md_paragraph (metadata doc) of Some p \<Rightarrow> str_int p | None \<Rightarrow> ''?'')"

definition generate_fallback_answer :: "string \<Rightarrow> document list \<Rightarrow> answer_result" where
  "generate_fallback_answer query docs =
     (if docs = [] then no_information
      else (let answer_parts =
                  map (\<lambda>doc.
                         let content' = take 200 (page_content doc);
                             content'' = (if endswith content' ''...''
                                          then take (length content' - 3) content' else content')
                         in ''From '' @ section_or ''Unknown Section'' doc
                            @ '' (paragraph '' @ paragraph_str doc @ ''): '' @ content'')
                      (take 3 docs);
                answer' = ''Based on the document content:\<newline>\<newline>''
                          @ join ''\<newline>\<newline>'' answer_parts
            in \<lparr>answer = (if 500 < length answer' then take 500 answer' @ ''...'' else answer'),
                sources = docs,
                confidence = ''medium''\<rparr>))"

text \<open>
  The retry loop of \<^verbatim>\<open>generate_answer_with_sources\<close> over the attempts still to make:
  \<open>Inr (Some r)\<close> is a \<^verbatim>\<open>return r\<close> from inside the loop, \<open>Inr None\<close> is falling out of the
  loop, \<open>Inl e\<close> is the exception of the last attempt raised again.
\<close>

fun answer_attempts ::
  "world \<Rightarrow> string \<Rightarrow> string \<Rightarrow> string \<Rightarrow> document list \<Rightarrow> nat list \<Rightarrow> state
     \<Rightarrow> (exn + answer_result option) \<times> state" where
  "answer_attempts w prompt context query docs [] st = (Inr None, st)"
| "answer_attempts w prompt context query docs (attempt # rest) st =
     (case invoke w prompt st of
        (Inr response, st') \<Rightarrow>
          if strip response \<noteq> []
          then (if is_response_grounded response context
                then (Inr (Some \<lparr>answer = strip response, sources = docs, confidence = ''high''\<rparr>), st')
                else (Inr (Some (generate_fallback_answer query docs)), st'))
          else answer_attempts w prompt context query docs rest st'
      | (Inl e, st') \<Rightarrow>
          if attempt < max_retries - 1
          then answer_attempts w prompt context query docs rest (sleep (2 ^ attempt) st')
          else (Inl e, st'))"

text \<open>The context string and the prompt that \<^verbatim>\<open>generate_answer_with_sources\<close> builds.\<close>

definition answer_context :: "document list \<Rightarrow> string" where
  "answer_context docs =
     (let context_parts =
            map (\<lambda>(i, doc).
                   ''[SOURCE '' @ str_nat (i + 1) @ '' - Section: ''
                   @ section_or ''Unknown Section'' doc
                   @ '', Paragraph: '' @ paragraph_str doc @ '']\<newline>''
                   @ page_content doc)
                (enumerate 0 docs);
          context = join ''\<newline>\<newline>'' context_parts
      in if 2000 < length context then take 2000 context @ ''...'' else context)"

definition answer_prompt :: "string \<Rightarrow> string \<Rightarrow> string" where
  "answer_prompt context query =
     ''You are a document assistant. Answer ONLY based on the provided context from the document. \<newline>''
     @ ''\<newline>''
     @ ''STRICT RULES:\<newline>''
     @ ''1. Use ONLY information explicitly stated in the context\<newline>''
     @ ''2. If the context doesn't contain enough information to answer fully, say so\<newline>''
     @ ''3. Always reference which SOURCE number you're using\<newline>''
     @ ''4. Do NOT add external knowledge or assumptions\<newline>''
     @ ''5. If uncertain, state your uncertainty clearly\<newline>''
     @ ''\<newline>''
     @ ''Context from document:\<newline>''
     @ context
     @ ''\<newline>''
     @ ''\<newline>''
     @ ''Question: ''
     @ query
     @ ''\<newline>''
     @ ''\<newline>''
     @ ''Answer (reference sources by number):''"

text \<open>The body of the outer \<^verbatim>\<open>try\<close> of \<^verbatim>\<open>generate_answer_with_sources\<close>: \<open>Inl\<close> is an
  exception that reaches the outer \<^verbatim>\<open>except\<close>.\<close>

definition answer_body :: "world \<Rightarrow> string \<Rightarrow> nat \<Rightarrow> state \<Rightarrow> (exn + answer_result) \<times> state" where
  "answer_body w query k st =
     (case load_vector_store w st of
        Inl e \<Rightarrow> (Inl e, st)
      | Inr vector_store \<Rightarrow>
          (case similarity_search w vector_store query k of
             Inl e \<Rightarrow> (Inl e, st)
           | Inr docs \<Rightarrow>
               if docs = [] then (Inr no_information, st)
               else (let context = answer_context docs;
                         prompt = answer_prompt context query
                     in case get_llm_qa w st of
                          (Inl e, st1) \<Rightarrow> (Inr (generate_fallback_answer query docs), st1)
                        | (Inr llm, st1) \<Rightarrow>
                            (case answer_attempts w prompt context query docs [0..<max_retries] st1 of
                               (Inr (Some result), st2) \<Rightarrow> (Inr result, st2)
                             | (Inr None, st2) \<Rightarrow> (Inr (generate_fallback_answer query docs), st2)
                             | (Inl e, st2) \<Rightarrow> (Inr (generate_fallback_answer query docs), st2)))))"

text \<open>\<^verbatim>\<open>generate_answer_with_sources(query, k)\<close>: the outer \<^verbatim>\<open>except\<close> turns every exception
  into a result.\<close>

definition generate_answer_with_sources :: "world \<Rightarrow> string \<Rightarrow> nat \<Rightarrow> state \<Rightarrow> answer_result \<times> state" where
  "generate_answer_with_sources w query k st =
     (case answer_body w query k st of
        (Inr result, st') \<Rightarrow> (result, st')
      | (Inl e, st') \<Rightarrow>
          (\<lparr>answer = ''Error generating answer: '' @ str_exn e,
            sources = [],
            confidence = ''error''\<rparr>, st'))"

section \<open>logic\_quiz.py: challenge questions\<close>

text \<open>
  The replies of the model are strings, on which \<^verbatim>\<open>extract_text_from_response\<close> is the
  identity. \<^verbatim>\<open>get_llm\<close> of \<^verbatim>\<open>logic_quiz.py\<close> does not try the model.
\<close>

definition get_llm_quiz :: "world \<Rightarrow> exn + unit" where
  "get_llm_quiz w =
     (if \<not> hf_token w then Inl (ValueError ''HF_TOKEN environment variable is required'')
      else (case endpoint_error w of
              Some e \<Rightarrow> Inl (ValueError ''Failed to initialize any LLM model'')
            | None \<Rightarrow> Inr ()))"

definition document_to_dict :: "document \<Rightarrow> chunk" where
  "document_to_dict doc =
     \<lparr>ck_section = Some (section_or ''Unknown'' doc),
      ck_paragraph = Some (case md_paragraph (metadata doc) of Some p \<Rightarrow> p | None \<Rightarrow> 0),
      ck_text = Some (page_content doc),
      ck_chunk_id = Some (case md_chunk_id (metadata doc) of Some i \<Rightarrow> i | None \<Rightarrow> 0)\<rparr>"

text \<open>The loop that turns \<^verbatim>\<open>Document\<close> objects into dictionaries and leaves dictionaries
  alone.\<close>

definition processed_chunks :: "chunk_obj list \<Rightarrow> chunk list" where
  "processed_chunks doc_chunks =
     map (\<lambda>chunk'. case chunk' of DocumentObj doc \<Rightarrow> document_to_dict doc | DictObj c \<Rightarrow> c)
         doc_chunks"

text \<open>The patterns of \<^verbatim>\<open>parse_and_validate_questions\<close>, each with the positions of the items
  that make up its group 1. The bullet of the fourth pattern is not an ASCII character:
  it stands here as the three bytes of its UTF-8 encoding.\<close>

definition not_newline :: "char \<Rightarrow> bool" where
  "not_newline c = (c \<noteq> CHR ''\<newline>'')"

definition question_patterns :: "(rx list \<times> nat list) list" where
  "question_patterns =
     [([Plus isdigit, Lit ''.'', Star isspace, Plus not_newline, Lit ''?'', Star isspace], [3, 4]),
      ([Plus isdigit, Lit '')'', Star isspace, Plus not_newline, Lit ''?'', Star isspace], [3, 4]),
      ([Lit ''-'', Star isspace, Plus not_newline, Lit ''?'', Star isspace], [2, 3]),
      ([Lit [CHR 0xE2, CHR 0x80, CHR 0xA2], Star isspace, Plus not_newline, Lit ''?'', Star isspace],
       [2, 3]),
      ([Plus not_newline, Lit ''?'', Star isspace], [0, 1])]"

text \<open>\<^verbatim>\<open>re.search(pattern, s)\<close> finds a match exactly when all of \<open>s\<close> matches the pattern
  with any run of characters before and after it.\<close>

definition rx_search :: "rx list \<Rightarrow> string \<Rightarrow> bool" where
  "rx_search pattern s =
     (rx_match False ([Star (\<lambda>c. True)] @ pattern @ [Star (\<lambda>c. True)]) s \<noteq> None)"

definition invalid_patterns :: "rx list list" where
  "invalid_patterns =
     [[Lit ''external'', Plus isspace, Lit ''knowledge''],
      [Lit ''outside'', Plus isspace, Lit ''the'', Plus isspace, Lit ''document''],
      [Lit ''research'', Plus isspace, Lit ''further''],
      [Lit ''google'', Plus isspace, Lit ''search''],
      [Lit ''additional'', Plus isspace, Lit ''sources'']]"

definition is_valid_question :: "string \<Rightarrow> chunk list \<Rightarrow> bool" where
  "is_valid_question question doc_chunks =
     (if question = [] \<or> length question < 10 then False
      else if \<not> endswith question ''?'' then False
      else (let question_lower = lower question in
            if list_ex (\<lambda>pattern. rx_search pattern question_lower) invalid_patterns then False
            else (let doc_text = lower (join '' '' (map get_text (take 5 doc_chunks)));
                      question_words = py_set (split_ws question_lower);
                      doc_words = py_set (split_ws doc_text);
                      overlap = length (intersection question_words doc_words)
                  in 2 < overlap)))"

text \<open>The first pattern that matches a line, and the trimmed group 1 of the match.\<close>

definition first_match :: "string \<Rightarrow> string option" where
  "first_match line =
     (case List.find (\<lambda>(pattern, group1). rx_match False pattern line \<noteq> None) question_patterns of
        None \<Rightarrow> None
      | Some (pattern, group1) \<Rightarrow>
          (case rx_match False pattern line of
             None \<Rightarrow> None
           | Some parts \<Rightarrow> Some (strip (concat (map (\<lambda>i. parts ! i) group1)))))"

definition parse_and_validate_questions :: "string \<Rightarrow> chunk list \<Rightarrow> string list" where
  "parse_and_validate_questions response doc_chunks =
     concat (map (\<lambda>line0.
                    let line = strip line0 in
                    if line = [] then []
                    else (case first_match line of
                            None \<Rightarrow> []
                          | Some question \<Rightarrow>
                              if is_valid_question question doc_chunks then [question] else []))
                 (split_on CHR ''\<newline>'' (strip response)))"

text \<open>\<^verbatim>\<open>generate_fallback_questions(doc_chunks, num)\<close>. The sections are collected in a set,
  and the question that names them lists the first three in the order Python iterates
  over that set.\<close>

definition generate_fallback_questions :: "world \<Rightarrow> chunk_obj list \<Rightarrow> int \<Rightarrow> string list" where
  "generate_fallback_questions w doc_chunks num =
     (if doc_chunks = []
      then py_take num
             [''What are the main points discussed in this document?'',
              ''How are the different sections related to each other?'',
              ''What conclusions can be drawn from the content?'']
      else (let first_chunks = take 10 (processed_chunks doc_chunks);
                sections' = py_set (filter (\<lambda>sec. sec \<noteq> []) (map (get_section []) first_chunks));
                key_terms =
                  py_set (concat (map (\<lambda>c. filter (\<lambda>word. 6 < length word \<and> isalpha word)
                                                   (split_ws (lower (get_text c))))
                                      first_chunks));
                questions =
                  (if 1 < length sections'
                   then [''How do the different sections ('' @ join '', '' (take 3 (set_order w sections'))
                         @ '') relate to each other?'']
                   else [])
                  @ (if key_terms \<noteq> []
                     then [''What is the significance of the key concepts discussed in this document?'']
                     else []);
                fallback_questions =
                  [''What are the main themes or arguments presented in this document?'',
                   ''What evidence or examples are provided to support the main points?'',
                   ''What questions or implications does this document raise for further consideration?'',
                   ''How might the information in this document be applied or interpreted?'',
                   ''What connections can be made between different parts of this document?'']
            in py_take num (questions @ fallback_questions)))"

text \<open>The loop that selects the first chunk of each section, eight at most.\<close>

definition select_step :: "chunk list \<times> string list \<Rightarrow> chunk \<Rightarrow> chunk list \<times> string list" where
  "select_step acc c =
     (case acc of
        (selected_chunks, sections_seen) \<Rightarrow>
          (let sec = get_section ''Unknown'' c in
           if sec \<notin> set sections_seen \<and> length selected_chunks < 8
           then (selected_chunks @ [c], sections_seen @ [sec])
           else (selected_chunks, sections_seen)))"

text \<open>The retry loop of \<^verbatim>\<open>generate_challenge_questions\<close>, read like \<open>answer_attempts\<close>.\<close>

fun question_attempts ::
  "world \<Rightarrow> string \<Rightarrow> chunk list \<Rightarrow> int \<Rightarrow> nat list \<Rightarrow> state
     \<Rightarrow> (exn + string list option) \<times> state" where
  "question_attempts w prompt selected_chunks num [] st = (Inr None, st)"
| "question_attempts w prompt selected_chunks num (attempt # rest) st =
     (case invoke w prompt st of
        (Inr response_text, st') \<Rightarrow>
          if strip response_text \<noteq> []
          then (let questions = parse_and_validate_questions response_text selected_chunks in
                if num \<le> int (length questions) then (Inr (Some (py_take num questions)), st')
                else if questions \<noteq> []
                then (Inr (Some (questions
                                 @ generate_fallback_questions w (map DictObj selected_chunks)
                                     (num - int (length questions)))), st')
                else question_attempts w prompt selected_chunks num rest st')
          else question_attempts w prompt selected_chunks num rest st'
      | (Inl e, st') \<Rightarrow>
          if attempt < max_retries - 1
          then question_attempts w prompt selected_chunks num rest (sleep (2 ^ attempt) st')
          else (Inl e, st'))"

text \<open>The context string and the prompt that \<^verbatim>\<open>generate_challenge_questions\<close> builds.\<close>

definition question_context :: "chunk list \<Rightarrow> string" where
  "question_context selected_chunks =
     (let context_parts =
            map (\<lambda>(i, c). ''[SECTION '' @ str_nat (i + 1) @ '': '' @ get_section ''Unknown'' c
                           @ '']\<newline>'' @ take 300 (get_text c))
                (enumerate 0 selected_chunks)
      in join ''\<newline>\<newline>'' context_parts)"

definition question_prompt :: "int \<Rightarrow> string \<Rightarrow> string" where
  "question_prompt num full_context =
     ''Generate ''
     @ str_int num
     @ '' analytical questions based ONLY on the provided document content.\<newline>''
     @ ''\<newline>''
     @ ''REQUIREMENTS:\<newline>''
     @ ''1. Questions must be answerable using ONLY the document content\<newline>''
     @ ''2. Focus on comprehension, analysis, and connections between sections\<newline>''
     @ ''3. Avoid questions requiring external knowledge\<newline>''
     @ ''4. Make questions thought-provoking but document-grounded\<newline>''
     @ ''5. Format as numbered list\<newline>''
     @ ''\<newline>''
     @ ''Document Content:\<newline>''
     @ full_context
     @ ''\<newline>''
     @ ''\<newline>''
     @ ''Generate ''
     @ str_int num
     @ '' questions:''"

definition generate_challenge_questions ::
  "world \<Rightarrow> chunk_obj list \<Rightarrow> int \<Rightarrow> state \<Rightarrow> string list \<times> state" where
  "generate_challenge_questions w doc_chunks num st =
     (case get_llm_quiz w of
        Inl e \<Rightarrow> (generate_fallback_questions w doc_chunks num, st)
      | Inr llm \<Rightarrow>
          (let chunks = processed_chunks doc_chunks;
               selected0 = fst (foldl select_step ([], []) chunks);
               selected_chunks = (if selected0 = [] then take 5 chunks else selected0);
               full_context = question_context selected_chunks;
               prompt = question_prompt num full_context
           in case question_attempts w prompt selected_chunks num [0..<max_retries] st of
                (Inr (Some questions), st') \<Rightarrow> (questions, st')
              | (Inr None, st') \<Rightarrow>
                  (generate_fallback_questions w (map DictObj selected_chunks) num, st')
              | (Inl e, st') \<Rightarrow> (generate_fallback_questions w doc_chunks num, st')))"

section \<open>logic\_quiz.py: evaluating an answer\<close>

definition is_evaluation_grounded :: "string \<Rightarrow> string \<Rightarrow> string \<Rightarrow> bool" where
  "is_evaluation_grounded evaluation context user_answer =
     (if contains (upper evaluation) ''SOURCE'' \<or> contains (upper evaluation) ''SECTION'' then True
      else (let eval_words = py_set (split_ws (lower evaluation));
                context_words = py_set (split_ws (lower context));
                answer_words = py_set (split_ws (lower user_answer));
                context_overlap = length (intersection eval_words context_words);
                answer_overlap = length (intersection eval_words answer_words)
            in 5 < context_overlap \<and> 3 < answer_overlap))"

definition very_brief :: string where
  "very_brief = ''Your answer is very brief. Please provide more detail and explanation ''
                @ ''based on the document content.''"

definition generate_fallback_evaluation :: "string \<Rightarrow> string \<Rightarrow> chunk_obj list \<Rightarrow> string" where
  "generate_fallback_evaluation question user_answer chunks =
     (if user_answer = [] \<or> length (strip user_answer) < 5 then very_brief
      else (let word_count = length (split_ws user_answer);
                evaluation = ''Thank you for your '' @ str_nat word_count @ ''-word response. '';
                evaluation1 =
                  (if chunks \<noteq> []
                   then (let doc_content =
                               concat (map (\<lambda>chunk'. chunk_obj_text chunk' @ '' '') (take 3 chunks));
                             answer_words = py_set (split_ws (lower user_answer));
                             doc_words = py_set (split_ws (lower doc_content));
                             overlap = length (intersection answer_words doc_words)
                         in if 10 < overlap
                            then evaluation
                                 @ ''Your answer shows good engagement with the document content. ''
                            else if 5 < overlap
                            then evaluation
                                 @ ''Your answer has some connection to the document content. ''
                            else evaluation
                                 @ ''Consider referencing more specific details from the document. '')
                   else evaluation)
            in if word_count < 20
               then evaluation1
                    @ ''Try to provide more detailed explanations and examples from the document.''
               else if 150 < word_count
               then evaluation1
                    @ ''Good detail in your response - you've provided comprehensive coverage.''
               else evaluation1 @ ''Good length for your response.''))"

text \<open>The retry loop of \<^verbatim>\<open>evaluate_user_answer\<close>, read like \<open>answer_attempts\<close>.\<close>

fun evaluation_attempts ::
  "world \<Rightarrow> string \<Rightarrow> string \<Rightarrow> string \<Rightarrow> string \<Rightarrow> document list \<Rightarrow> nat list \<Rightarrow> state
     \<Rightarrow> (exn + string option) \<times> state" where
  "evaluation_attempts w eval_prompt context question user_answer chunks [] st = (Inr None, st)"
| "evaluation_attempts w eval_prompt context question user_answer chunks (attempt # rest) st =
     (case invoke w eval_prompt st of
        (Inr response_text, st') \<Rightarrow>
          if strip response_text \<noteq> []
          then (if is_evaluation_grounded response_text context user_answer
                then (Inr (Some (strip response_text)), st')
                else (Inr (Some (generate_fallback_evaluation question user_answer
                                   (map DocumentObj chunks))), st'))
          else evaluation_attempts w eval_prompt context question user_answer chunks rest st'
      | (Inl e, st') \<Rightarrow>
          if attempt < max_retries - 1
          then evaluation_attempts w eval_prompt context question user_answer chunks rest
                 (sleep (2 ^ attempt) st')
          else (Inl e, st'))"

definition no_content_found :: string where
  "no_content_found = ''I cannot evaluate your answer as no relevant document content ''
                      @ ''was found for this question.''"

text \<open>The context string and the prompt that \<^verbatim>\<open>evaluate_user_answer\<close> builds.\<close>

definition evaluation_context :: "document list \<Rightarrow> string" where
  "evaluation_context chunks =
     (let context_parts =
            map (\<lambda>(i, doc).
                   ''[SOURCE '' @ str_nat (i + 1) @ '' - '' @ section_or ''Unknown Section'' doc
                   @ '', Para '' @ paragraph_str doc @ '']\<newline>'' @ take 300 (page_content doc))
                (enumerate 0 chunks);
          context = join ''\<newline>\<newline>'' context_parts
      in if 1800 < length context then take 1800 context @ ''...'' else context)"

definition evaluation_prompt :: "string \<Rightarrow> string \<Rightarrow> string \<Rightarrow> string" where
  "evaluation_prompt context question user_answer =
     ''You are evaluating a user's answer based ONLY on the provided document content.\<newline>''
     @ ''\<newline>''
     @ ''EVALUATION CRITERIA:\<newline>''
     @ ''1. Accuracy: Does the answer align with the document content?\<newline>''
     @ ''2. Completeness: Does it address the question adequately?\<newline>''
     @ ''3. Use of evidence: Does it reference or reflect document content?\<newline>''
     @ ''4. Reasoning: Is the logic sound based on the document?\<newline>''
     @ ''\<newline>''
     @ ''Document Content:\<newline>''
     @ context
     @ ''\<newline>''
     @ ''\<newline>''
     @ ''Question: ''
     @ question
     @ ''\<newline>''
     @ ''\<newline>''
     @ ''User's Answer: ''
     @ user_answer
     @ ''\<newline>''
     @ ''\<newline>''
     @ ''Provide evaluation feedback focusing on:\<newline>''
     @ ''- What the user got right (reference specific sources)\<newline>''
     @ ''- What could be improved\<newline>''
     @ ''- How well they used the document content\<newline>''
     @ ''- Specific suggestions for better answers\<newline>''
     @ ''\<newline>''
     @ ''Evaluation:''"

definition evaluate_user_answer :: "world \<Rightarrow> string \<Rightarrow> string \<Rightarrow> state \<Rightarrow> string \<times> state" where
  "evaluate_user_answer w question user_answer st =
     (let chunks = retrieve_relevant_chunks w question 5 st in
      if chunks = [] then (no_content_found, st)
      else (let context = evaluation_context chunks in
            case get_llm_quiz w of
              Inl e \<Rightarrow> (generate_fallback_evaluation question user_answer [], st)
            | Inr llm \<Rightarrow>
                (let eval_prompt = evaluation_prompt context question user_answer in
                 case evaluation_attempts w eval_prompt context question user_answer chunks
                        [0..<max_retries] st of
                   (Inr (Some feedback), st') \<Rightarrow> (feedback, st')
                 | (Inr None, st') \<Rightarrow>
                     (generate_fallback_evaluation question user_answer
                        (map DocumentObj chunks), st')
                 | (Inl e, st') \<Rightarrow>
                     (generate_fallback_evaluation question user_answer [], st'))))"

section \<open>Properties of the chunker\<close>

lemma div_mult_add_less: "r < s \<Longrightarrow> (s * q + r) div s = (q::nat)"
  by simp

lemma mod_filter_upt:
  assumes "0 < s"
  shows "filter (\<lambda>i. i mod s = 0) [0..<n] = map (\<lambda>k. s * k) [0..<(n + s - 1) div s]"
proof (induction n)
  case 0
  from assms show ?case by simp
next
  case (Suc n)
  define q r where "q = n div s" and "r = n mod s"
  have n: "n = s * q + r" and r: "r < s"
    using assms by (simp_all add: q_def r_def)
  show ?case
  proof (cases "n mod s = 0")
    case True
    then have r0: "r = 0" by (simp add: r_def)
    have "Suc n + s - 1 = s * Suc q + 0" using n r0 by simp
    then have a: "(Suc n + s - 1) div s = Suc q"
      using assms by (simp only: div_mult_add_less)
    have "s - 1 < s" using assms by simp
    note d = div_mult_add_less [OF this, of q]
    have "n + s - 1 = s * q + (s - 1)" using assms n r0 by arith
    then have b: "(n + s - 1) div s = q"
      by (simp only: d)
    show ?thesis using Suc True a b n r0 by simp
  next
    case False
    then have r0: "0 < r" by (simp add: r_def)
    have "Suc n + s - 1 = s * Suc q + r" using n by simp
    then have a: "(Suc n + s - 1) div s = Suc q"
      using r by (simp only: div_mult_add_less)
    have "r - 1 < s" using r by simp
    note d = div_mult_add_less [OF this, of "Suc q"]
    have "n + s - 1 = s * Suc q + (r - 1)" using n r0 by simp
    then have b: "(n + s - 1) div s = Suc q"
      by (simp only: d)
    show ?thesis using Suc False a b by simp
  qed
qed

lemma py_range_0: "0 < s \<Longrightarrow> py_range 0 n s = map (\<lambda>k. s * k) [0..<(n + s - 1) div s]"
  by (simp add: py_range_def mod_filter_upt)

lemma chunk_section_fallback:
  assumes "splitter t = Inl e" and "strip t \<noteq> []"
  shows "chunk_section splitter t = map (\<lambda>k. take 500 (drop (400 * k) t)) [0..<(length t + 399) div 400]"
  using assms by (simp add: chunk_section_def py_range_0 comp_def add.commute)

lemma dropWhile_all_iff: "(\<forall>x\<in>set (dropWhile P xs). P x) \<longleftrightarrow> (\<forall>x\<in>set xs. P x)"
  by (induction xs) auto

lemma strip_empty_iff: "strip s = [] \<longleftrightarrow> list_all isspace s"
  by (simp add: strip_def list_all_iff dropWhile_eq_Nil_conv dropWhile_all_iff)

lemma not_space_a: "\<not> isspace (CHR ''a'')" by (simp add: isspace_def)

lemma ceil_div_400_less: "k < (n + 399) div 400 \<Longrightarrow> 400 * k < (n::nat)"
  by arith

lemma ceil_div_400_full: "k + 2 < (n + 399) div 400 \<Longrightarrow> 400 * k + 500 \<le> (n::nat)"
  by arith

text \<open>
  Claim C6, as the code has it. On blank input \<open>chunk_section\<close> returns no chunk. When
  the splitter returns, every chunk that is kept has more than 30 characters after
  trimming. When the splitter raises, \<open>chunk_section\<close> still returns: the slices
  \<^verbatim>\<open>text[400*k : 400*k + 500]\<close> for every \<open>k\<close> below \<open>ceil(len / 400)\<close>, so consecutive slices
  start 400 characters apart; slice \<open>k\<close> has \<open>min 500 (len - 400 * k)\<close> characters, which is
  at least one, and exactly 500 for every slice but the last two.
\<close>

theorem chunk_section_slices:
  "(strip t = [] \<longrightarrow> chunk_section splitter t = [])
   \<and> (\<forall>chunks. splitter t = Inr chunks \<longrightarrow>
         (\<forall>c \<in> set (chunk_section splitter t). 30 < length (strip c)))
   \<and> (\<forall>e. splitter t = Inl e \<and> strip t \<noteq> [] \<longrightarrow>
         length (chunk_section splitter t) = (length t + 399) div 400
         \<and> (\<forall>k < length (chunk_section splitter t).
               chunk_section splitter t ! k = take 500 (drop (400 * k) t)
               \<and> length (chunk_section splitter t ! k) = min 500 (length t - 400 * k)
               \<and> 0 < length (chunk_section splitter t ! k)
               \<and> (k + 2 < length (chunk_section splitter t) \<longrightarrow>
                    length (chunk_section splitter t ! k) = 500)))"
proof -
  have blank: "strip t = [] \<longrightarrow> chunk_section splitter t = []"
    by (simp add: chunk_section_def)
  have recursive: "\<forall>chunks. splitter t = Inr chunks \<longrightarrow>
         (\<forall>c \<in> set (chunk_section splitter t). 30 < length (strip c))"
    by (auto simp: chunk_section_def)
  have fallback: "length (chunk_section splitter t) = (length t + 399) div 400
         \<and> (\<forall>k < length (chunk_section splitter t).
               chunk_section splitter t ! k = take 500 (drop (400 * k) t)
               \<and> length (chunk_section splitter t ! k) = min 500 (length t - 400 * k)
               \<and> 0 < length (chunk_section splitter t ! k)
               \<and> (k + 2 < length (chunk_section splitter t) \<longrightarrow>
                    length (chunk_section splitter t ! k) = 500))"
    if a: "splitter t = Inl e \<and> strip t \<noteq> []" for e
  proof -
    from a have r: "chunk_section splitter t =
        map (\<lambda>k. take 500 (drop (400 * k) t)) [0..<(length t + 399) div 400]"
      by (simp add: chunk_section_fallback)
    have "chunk_section splitter t ! k = take 500 (drop (400 * k) t)
          \<and> length (chunk_section splitter t ! k) = min 500 (length t - 400 * k)
          \<and> 0 < length (chunk_section splitter t ! k)
          \<and> (k + 2 < length (chunk_section splitter t) \<longrightarrow>
               length (chunk_section splitter t ! k) = 500)"
      if "k < length (chunk_section splitter t)" for k
    proof -
      from that have k: "k < (length t + 399) div 400" by (simp add: r)
      then have nth: "chunk_section splitter t ! k = take 500 (drop (400 * k) t)"
        by (simp add: r)
      have pos: "400 * k < length t" using k by (rule ceil_div_400_less)
      have full: "length (chunk_section splitter t ! k) = 500"
        if "k + 2 < length (chunk_section splitter t)"
      proof -
        from that have "k + 2 < (length t + 399) div 400" by (simp add: r)
        then have "400 * k + 500 \<le> length t" by (rule ceil_div_400_full)
        then show ?thesis by (simp add: nth)
      qed
      show ?thesis using nth pos full by simp
    qed
    moreover have "length (chunk_section splitter t) = (length t + 399) div 400"
      by (simp add: r)
    ultimately show ?thesis by blast
  qed
  show ?thesis using blank recursive fallback by blast
qed

text \<open>
  The slices are not all 500 characters long up to the last one: on 450 characters the
  fallback returns a slice of 450 followed by a slice of 50.
\<close>

theorem chunk_section_short_slice_counterexample:
  "map length (chunk_section (\<lambda>_. Inl (LibraryError ''boom'')) (replicate 450 (CHR ''a''))) = [450, 50]"
proof -
  have "strip (replicate 450 (CHR ''a'')) \<noteq> []"
    by (simp add: strip_empty_iff list_all_iff not_space_a)
  then show ?thesis
    by (simp add: chunk_section_fallback [where e = "LibraryError ''boom''"] upt_conv_Cons)
qed

theorem chunk_section_slices_witness:
  "chunk_section (\<lambda>_. Inl (LibraryError ''boom'')) ''  '' = []
   \<and> 30 < length (strip (hd (chunk_section (\<lambda>s. Inr [s, ''tiny'']) (replicate 40 (CHR ''a'')))))
   \<and> length (chunk_section (\<lambda>_. Inl (LibraryError ''boom'')) (replicate 1300 (CHR ''a''))) = 4
   \<and> length (chunk_section (\<lambda>_. Inl (LibraryError ''boom'')) (replicate 1300 (CHR ''a'')) ! 0) = 500
   \<and> length (chunk_section (\<lambda>_. Inl (LibraryError ''boom'')) (replicate 1300 (CHR ''a'')) ! 3) = 100"
proof -
  let ?boom = "\<lambda>_ :: string. (Inl (LibraryError ''boom'') :: exn + string list)"
  let ?ok = "\<lambda>s :: string. (Inr [s, ''tiny''] :: exn + string list)"
  let ?t = "replicate 1300 (CHR ''a'')"
  have blank: "strip ''  '' = []" by code_simp
  have kept: "chunk_section ?ok (replicate 40 (CHR ''a'')) = [replicate 40 (CHR ''a'')]"
    by code_simp
  have nonblank: "strip ?t \<noteq> []"
    by (simp add: strip_empty_iff list_all_iff not_space_a)
  have len: "length (chunk_section ?boom ?t) = 4"
    using chunk_section_slices [of ?t ?boom] nonblank by simp
  have "chunk_section ?boom ''  '' = []"
    using chunk_section_slices [of "''  ''" ?boom] blank by simp
  moreover have "30 < length (strip (hd (chunk_section ?ok (replicate 40 (CHR ''a'')))))"
    using chunk_section_slices [of "replicate 40 (CHR ''a'')" ?ok] kept by simp
  moreover have "length (chunk_section ?boom ?t ! 0) = 500"
    using chunk_section_slices [of ?t ?boom] nonblank len by simp
  moreover have "length (chunk_section ?boom ?t ! 3) = 100"
    using chunk_section_slices [of ?t ?boom] nonblank len by simp
  ultimately show ?thesis using len by simp
qed

section \<open>Properties of the section segmenter\<close>

lemma dict_set_keys:
  "map fst (dict_set d k v) = (if k \<in> set (map fst d) then map fst d else map fst d @ [k])"
  by (induction d k v rule: dict_set.induct) auto

lemma dict_set_distinct: "distinct (map fst d) \<Longrightarrow> distinct (map fst (dict_set d k v))"
  by (simp add: dict_set_keys)

lemma segment_line_distinct:
  "distinct (map fst (sections st)) \<Longrightarrow> distinct (map fst (sections (segment_line st line)))"
  by (simp add: segment_line_def Let_def dict_set_distinct split: option.split)

lemma foldl_segment_line_distinct:
  "distinct (map fst (sections st)) \<Longrightarrow> distinct (map fst (sections (foldl segment_line st ls)))"
  by (induction ls arbitrary: st) (simp_all add: segment_line_distinct)

lemma split_into_sections_distinct: "distinct (map fst (split_into_sections t))"
proof -
  let ?st = "foldl segment_line \<lparr>sections = [], current_section = ''Main Content'', buffer = []\<rparr>
               (split_on CHR ''\<newline>'' t)"
  have "distinct (map fst (sections ?st))"
    by (rule foldl_segment_line_distinct) simp
  then show ?thesis
    by (simp add: split_into_sections_def Let_def dict_set_distinct distinct_map_filter)
qed

lemma split_into_sections_nonblank:
  "(k, v) \<in> set (split_into_sections t) \<Longrightarrow> strip v \<noteq> []"
  by (auto simp: split_into_sections_def Let_def)

text \<open>
  Claim C2 asks that no line outside the headers is lost, also when a header name
  occurs twice. The segmenter stores a section under its name, so a second section of the
  same name replaces the text of the first: of the two parts below only the second is
  left.
\<close>

theorem split_into_sections_repeated_header:
  "split_into_sections (''Introduction\<newline>first part\<newline>''
                        @ ''Introduction\<newline>second part'')
   = [(''Introduction'', ''second part'')]"
  by code_simp

section \<open>Properties of process\_document\<close>

text \<open>The entries one section adds to the chunk list.\<close>

definition chunks_of :: "world \<Rightarrow> string \<times> string \<Rightarrow> chunk list" where
  "chunks_of w sec =
     map (\<lambda>(idx, chunk_text).
            \<lparr>ck_section = Some (fst sec), ck_paragraph = Some (int idx + 1),
             ck_text = Some chunk_text, ck_chunk_id = None\<rparr>)
         (enumerate 0 (chunk_section (split_text w) (snd sec)))"

lemma chunk_step_eq:
  "chunk_step w (d, cs) sec =
     (dict_set d (fst sec) (chunk_section (split_text w) (snd sec)), cs @ chunks_of w sec)"
  by (cases sec) (simp add: chunk_step_def chunks_of_def Let_def)

lemma foldl_chunk_step:
  "distinct (map fst d @ map fst secs) \<Longrightarrow>
   foldl (chunk_step w) (d, cs) secs =
     (d @ map (\<lambda>sec. (fst sec, chunk_section (split_text w) (snd sec))) secs,
      cs @ concat (map (chunks_of w) secs))"
proof (induction secs arbitrary: d cs)
  case Nil
  then show ?case by simp
next
  case (Cons sec secs)
  have new: "fst sec \<notin> set (map fst d)" using Cons.prems by auto
  have ds: "dict_set d k v = d @ [(k, v)]" if "k \<notin> set (map fst d)" for k and v :: "string list"
    using that by (induction d) auto
  show ?case
    using Cons.prems new
    by (simp add: chunk_step_eq ds Cons.IH)
qed

lemma filter_chunks_of_other:
  "fst sec \<noteq> name \<Longrightarrow> filter (\<lambda>c. ck_section c = Some name) (chunks_of w sec) = []"
  by (auto simp: chunks_of_def filter_empty_conv)

lemma filter_chunks_of_same:
  "filter (\<lambda>c. ck_section c = Some (fst sec)) (chunks_of w sec) = chunks_of w sec"
  by (auto simp: chunks_of_def filter_id_conv)

lemma filter_concat_chunks_of_absent:
  "name \<notin> set (map fst secs) \<Longrightarrow>
   filter (\<lambda>c. ck_section c = Some name) (concat (map (chunks_of w) secs)) = []"
  by (induction secs) (auto simp: filter_chunks_of_other)

lemma filter_concat_chunks_of:
  "distinct (map fst secs) \<Longrightarrow> sec \<in> set secs \<Longrightarrow>
   filter (\<lambda>c. ck_section c = Some (fst sec)) (concat (map (chunks_of w) secs)) = chunks_of w sec"
proof (induction secs)
  case Nil
  then show ?case by simp
next
  case (Cons a secs)
  show ?case
  proof (cases "a = sec")
    case True
    have "fst sec \<notin> set (map fst secs)" using Cons.prems True by simp
    then show ?thesis
      using True by (simp add: filter_chunks_of_same filter_concat_chunks_of_absent)
  next
    case False
    then have mem: "sec \<in> set secs" using Cons.prems by simp
    then have "fst sec \<in> set (map fst secs)" by simp
    then have "fst a \<noteq> fst sec" using Cons.prems by auto
    then show ?thesis using Cons mem by (simp add: filter_chunks_of_other)
  qed
qed

lemma map_snd_enumerate_comp: "map (\<lambda>x. f (snd x)) (enumerate n xs) = map f xs"
  by (induction xs arbitrary: n) simp_all

text \<open>
  Claim C10: when \<open>process_document\<close> succeeds, the section names it returns are those of
  all segmented sections, in their order, and \<^verbatim>\<open>total_sections\<close> counts them all. The chunks
  of the result that carry a section's name are the chunks \<open>chunk_section\<close> returned for
  it, so a section all of whose chunks the noise filter dropped is still named and has no
  entry among the chunks.
\<close>

theorem process_document_sections:
  assumes "process_document w file st = (Inr res, st')"
  shows "\<exists>text'. extract_text w file = Inr text'
           \<and> r_sections res = map fst (split_into_sections text')
           \<and> total_sections (r_stats res) = length (split_into_sections text')
           \<and> (\<forall>sec \<in> set (split_into_sections text').
                 fst sec \<in> set (r_sections res)
                 \<and> map ck_text (filter (\<lambda>c. ck_section c = Some (fst sec)) (r_chunks res))
                     = map Some (chunk_section (split_text w) (snd sec)))"
proof -
  from assms obtain text' where ex: "extract_text w file = Inr text'"
    by (auto simp: process_document_def split: sum.splits)
  let ?raw = "split_into_sections text'"
  have d: "distinct (map fst [] @ map fst ?raw)"
    by (simp add: split_into_sections_distinct)
  note loop = foldl_chunk_step [OF d, of w "[]", simplified]
  from assms ex have res:
    "r_sections res = map fst ?raw"
    "total_sections (r_stats res) = length ?raw"
    "r_chunks res = concat (map (chunks_of w) ?raw)"
    by (auto simp: process_document_def Let_def loop comp_def split: if_splits prod.splits)
  have "map ck_text (filter (\<lambda>c. ck_section c = Some (fst sec)) (r_chunks res))
          = map Some (chunk_section (split_text w) (snd sec))"
    if "sec \<in> set ?raw" for sec
    using that
    by (simp add: res filter_concat_chunks_of split_into_sections_distinct chunks_of_def
                  comp_def case_prod_beta map_snd_enumerate_comp)
  then show ?thesis using ex res by auto
qed

text \<open>
  A run in which that happens: the introduction is shorter than the noise filter allows,
  the conclusion is not. The splitter returns a short text as one chunk.
\<close>

definition offline_world :: world where
  "offline_world =
     \<lparr>split_text = (\<lambda>t. Inr [t]),
      fitz_open = (\<lambda>c. Inl (LibraryError ''not a PDF'')),
      utf8_decode = Some,
      hf_token = False,
      endpoint_error = None,
      llm_invoke = (\<lambda>n p. Inl (LibraryError ''offline'')),
      faiss_build_error = (\<lambda>d. None),
      faiss_load_error = None,
      similarity_search = (\<lambda>d q k. Inr (take k d)),
      set_order = (\<lambda>xs. xs)\<rparr>"

definition short_intro_text :: string where
  "short_intro_text =
     ''Introduction\<newline>Short intro.\<newline>Conclusion\<newline>''
     @ ''This conclusion is long enough to pass the noise filter.''"

definition short_intro_file :: upload where
  "short_intro_file = \<lparr>filename = ''paper.txt'', content = Bytes short_intro_text\<rparr>"

theorem process_document_sections_witness:
  "\<exists>res st'. process_document offline_world short_intro_file \<lparr>vector_db = None, events = []\<rparr>
                 = (Inr res, st')
     \<and> r_sections res = [''Introduction'', ''Conclusion'']
     \<and> total_sections (r_stats res) = 2
     \<and> filter (\<lambda>c. ck_section c = Some ''Introduction'') (r_chunks res) = []
     \<and> map ck_text (r_chunks res)
         = [Some ''This conclusion is long enough to pass the noise filter.'']"
proof -
  let ?t = short_intro_text
  have ex: "extract_text offline_world short_intro_file = Inr ?t"
    by code_simp
  have raw: "split_into_sections ?t =
      [(''Introduction'', ''Short intro.''),
       (''Conclusion'', ''This conclusion is long enough to pass the noise filter.'')]"
    by code_simp
  have c1: "chunk_section (split_text offline_world) ''Short intro.'' = []"
    by code_simp
  have c2: "chunk_section (split_text offline_world)
              ''This conclusion is long enough to pass the noise filter.''
            = [''This conclusion is long enough to pass the noise filter.'']"
    by code_simp
  have loop: "foldl (chunk_step offline_world) ([], []) (split_into_sections ?t) =
      ([(''Introduction'', []),
        (''Conclusion'', [''This conclusion is long enough to pass the noise filter.''])],
       [\<lparr>ck_section = Some ''Conclusion'', ck_paragraph = Some 1,
         ck_text = Some ''This conclusion is long enough to pass the noise filter.'',
         ck_chunk_id = None\<rparr>])"
    by (simp add: raw chunk_step_eq c1 c2 chunks_of_def)
  have nonempty: "split_into_sections ?t \<noteq> []"
    by (simp add: raw)
  obtain summary st' where
    sm: "generate_summary offline_world (split_into_sections ?t) \<lparr>vector_db = None, events = []\<rparr>
           = (summary, st')"
    by (cases "generate_summary offline_world (split_into_sections ?t)
                 \<lparr>vector_db = None, events = []\<rparr>")
  define res where "res =
      \<lparr>r_sections = [''Introduction'', ''Conclusion''],
       r_chunks = [\<lparr>ck_section = Some ''Conclusion'', ck_paragraph = Some 1,
                    ck_text = Some ''This conclusion is long enough to pass the noise filter.'',
                    ck_chunk_id = None\<rparr>],
       r_summary = summary,
       r_stats = \<lparr>total_chunks = 1, total_sections = 2,
                  total_text_length = length short_intro_text\<rparr>\<rparr>"
  have run: "process_document offline_world short_intro_file \<lparr>vector_db = None, events = []\<rparr>
            = (Inr res, st')"
    using sm nonempty by (simp add: process_document_def ex Let_def loop res_def)
  from process_document_sections [OF run] ex raw
  have "r_sections res = [''Introduction'', ''Conclusion'']"
    and "total_sections (r_stats res) = 2"
    and "map ck_text (filter (\<lambda>c. ck_section c = Some ''Introduction'') (r_chunks res)) = []"
    by (auto simp: c1)
  moreover have "map ck_text (r_chunks res)
         = [Some ''This conclusion is long enough to pass the noise filter.'']"
    by (simp add: res_def)
  ultimately show ?thesis using run by auto
qed

end
